theory Spec2Isabelle
  imports Main "HOL-Library.AList"
begin

section \<open>JavaScript values\<close>

text \<open>
  The request body and everything the handler inspects is a JavaScript value. Strings are
  lists of code units; \<open>char\<close> carries the units 0 to 255.
  An object is the list of its own properties in property order.

  A finite number is known by the decimal digits that \<open>Number::toString\<close> finds for it:
  \<open>Finite neg s n\<close> is the number of sign \<open>neg\<close> and magnitude \<open>s * 10 ^ (n - k)\<close>, where \<open>s\<close>
  has \<open>k\<close> decimal digits and is the shortest such integer that reads back as the same
  double; \<open>s = 0\<close> is zero. So 7 is \<open>Finite False 7 1\<close>, 0.5 is \<open>Finite False 5 0\<close> and
  1e21 is \<open>Finite False 1 22\<close>.
\<close>

datatype number = Finite bool nat int | Infinity bool | NaN

datatype jsval =
    Undefined
  | Null
  | Bool bool
  | Num number
  | Str string
  | Arr "jsval list"
  | Obj "(string \<times> jsval) list"

datatype error = Error string | TypeError string

fun message :: "error \<Rightarrow> string" where
  "message (Error m) = m"
| "message (TypeError m) = m"

text \<open>The \<open>typeof\<close> operator: \<open>null\<close> and arrays are of type \<open>object\<close>.\<close>

fun typeof :: "jsval \<Rightarrow> string" where
  "typeof Undefined = ''undefined''"
| "typeof Null = ''object''"
| "typeof (Bool b) = ''boolean''"
| "typeof (Num n) = ''number''"
| "typeof (Str s) = ''string''"
| "typeof (Arr xs) = ''object''"
| "typeof (Obj kvs) = ''object''"

text \<open>
  Reading a property \<open>v.k\<close>. On \<open>undefined\<close> and \<open>null\<close> it throws a TypeError; on an
  object it yields the own property or \<open>undefined\<close>; primitives and arrays have no
  property of the names read by this program (\<open>url\<close>, \<open>fileData\<close>, \<open>fileName\<close>: none
  is an index, \<open>length\<close> or a name of a built-in prototype).
\<close>

fun get_prop :: "jsval \<Rightarrow> string \<Rightarrow> error + jsval" where
  "get_prop Undefined k = Inl (TypeError (''Cannot read properties of undefined (reading '' @ k @ '')''))"
| "get_prop Null k = Inl (TypeError (''Cannot read properties of null (reading '' @ k @ '')''))"
| "get_prop (Obj kvs) k = Inr (case map_of kvs k of Some v \<Rightarrow> v | None \<Rightarrow> Undefined)"
| "get_prop v k = Inr Undefined"

text \<open>
  \<open>String.prototype.trim\<close> strips white space and line terminators from both ends. Of the
  code units below 256 these are TAB, LF, VT, FF, CR, SPACE and NBSP.
\<close>

definition is_whitespace :: "char \<Rightarrow> bool" where
  "is_whitespace c = (of_char c \<in> {9, 10, 11, 12, 13, 32, 160 :: nat})"

definition trim :: "string \<Rightarrow> string" where
  "trim s = rev (dropWhile is_whitespace (rev (dropWhile is_whitespace s)))"

text \<open>The method call \<open>v.trim()\<close>: only a string has the method.\<close>

fun call_trim :: "jsval \<Rightarrow> error + string" where
  "call_trim (Str s) = Inr (trim s)"
| "call_trim Undefined = Inl (TypeError ''Cannot read properties of undefined (reading trim)'')"
| "call_trim Null = Inl (TypeError ''Cannot read properties of null (reading trim)'')"
| "call_trim v = Inl (TypeError ''trim is not a function'')"

section \<open>The validator\<close>

text \<open>
  \<open>validateData\<close> of \<open>src/validateData.ts\<close>: the current validator. The destructuring
  \<open>const { url } = data\<close> and the call \<open>url.trim()\<close> are the two places that can throw;
  \<open>&&\<close> evaluates its right operand only when the left one is true.
\<close>

definition validateData :: "jsval \<Rightarrow> error + bool" where
  "validateData data =
     (if typeof data \<noteq> ''object'' \<or> data = Null then Inr False
      else case get_prop data ''url'' of
             Inl e \<Rightarrow> Inl e
           | Inr url \<Rightarrow>
               if typeof url = ''string''
               then (case call_trim url of
                       Inl e \<Rightarrow> Inl e
                     | Inr t \<Rightarrow> Inr (length t > 0))
               else Inr False)"

text \<open>The earlier validator, which only asks for a non-null object.\<close>

definition validateData_a :: "jsval \<Rightarrow> error + bool" where
  "validateData_a data = Inr (typeof data = ''object'' \<and> data \<noteq> Null)"

section \<open>Configuration\<close>

text \<open>
  \<open>process.env\<close> is a map from names to strings. A string option stands for a value
  that may be \<open>undefined\<close>; it is falsy when undefined or empty.
\<close>

fun truthy_str :: "string option \<Rightarrow> bool" where
  "truthy_str None = False"
| "truthy_str (Some s) = (s \<noteq> [])"

text \<open>
  \<open>getEnvVar\<close>: throws when the value is falsy and no default is given, otherwise
  returns \<open>value || defaultValue\<close>. The inner \<open>None\<close> branches below are behind the
  guard that throws.
\<close>

definition getEnvVar :: "(string \<rightharpoonup> string) \<Rightarrow> string \<Rightarrow> string option \<Rightarrow> error + string" where
  "getEnvVar env key defaultValue =
     (let value = env key in
      if \<not> truthy_str value \<and> defaultValue = None
      then Inl (Error (''Environment variable '' @ key @ '' is not set''))
      else Inr (case value of
                  Some v \<Rightarrow> (if v \<noteq> [] then v
                             else case defaultValue of Some d \<Rightarrow> d | None \<Rightarrow> v)
                | None \<Rightarrow> (case defaultValue of Some d \<Rightarrow> d | None \<Rightarrow> [])))"

text \<open>Decimal digits.\<close>

definition is_digit :: "char \<Rightarrow> bool" where
  "is_digit c = (48 \<le> (of_char c :: nat) \<and> (of_char c :: nat) \<le> 57)"

definition digit_val :: "char \<Rightarrow> nat" where
  "digit_val c = of_char c - 48"

definition digit_char :: "nat \<Rightarrow> char" where
  "digit_char d = char_of (48 + d)"

definition digits_value :: "string \<Rightarrow> nat" where
  "digits_value ds = foldl (\<lambda>a c. 10 * a + digit_val c) 0 ds"

text \<open>
  \<open>parseInt(s, 10)\<close>: leading white space is skipped, one sign is read, then the longest
  run of decimal digits; what follows the digits is ignored. \<open>None\<close> is \<open>NaN\<close>.
\<close>

definition parseInt :: "string \<Rightarrow> int option" where
  "parseInt inputString =
     (let S = dropWhile is_whitespace inputString;
          sign = (case S of c # _ \<Rightarrow> if c = CHR ''-'' then - 1 else 1 | [] \<Rightarrow> (1::int));
          S' = (case S of c # r \<Rightarrow> if c = CHR ''+'' \<or> c = CHR ''-'' then r else S | [] \<Rightarrow> S);
          Z = takeWhile is_digit S'
      in if Z = [] then None else Some (sign * int (digits_value Z)))"

definition getPort :: "string \<Rightarrow> error + int" where
  "getPort portString =
     (case parseInt portString of
        None \<Rightarrow> Inl (Error (''Invalid PORT_NUMBER: '' @ portString))
      | Some port \<Rightarrow>
          if port < 1024 \<or> port > 65535
          then Inl (Error (''Invalid PORT_NUMBER: '' @ portString))
          else Inr port)"

definition PORT :: "(string \<rightharpoonup> string) \<Rightarrow> error + int" where
  "PORT env =
     (case getEnvVar env ''PORT_NUMBER'' (Some ''3000'') of
        Inl e \<Rightarrow> Inl e
      | Inr s \<Rightarrow> getPort s)"

definition SAVE_FOLDER :: "(string \<rightharpoonup> string) \<Rightarrow> error + string" where
  "SAVE_FOLDER env = getEnvVar env ''DATA_LOCATION'' (Some ''./data'')"

section \<open>Serialization\<close>

text \<open>The decimal digits of a natural number.\<close>

fun show_nat :: "nat \<Rightarrow> string" where
  "show_nat n = (if n < 10 then [digit_char n] else show_nat (n div 10) @ [digit_char (n mod 10)])"

declare show_nat.simps [simp del]

text \<open>
  \<open>Number::toString\<close> of ECMAScript in radix 10. With \<open>k\<close> the count of the digits of \<open>s\<close>:
  the digits and \<open>n - k\<close> zeros when \<open>k \<le> n \<le> 21\<close>; the digits with a point after the first
  \<open>n\<close> when \<open>0 < n \<le> 21\<close>; \<open>0.\<close>, \<open>- n\<close> zeros and the digits when \<open>- 6 < n \<le> 0\<close>; the
  exponent form otherwise.
\<close>

definition Number_toString :: "number \<Rightarrow> string" where
  "Number_toString x =
     (case x of
        NaN \<Rightarrow> ''NaN''
      | Infinity neg \<Rightarrow> (if neg then ''-Infinity'' else ''Infinity'')
      | Finite neg s n \<Rightarrow>
          if s = 0 then ''0''
          else (if neg then ''-'' else []) @
            (let ds = show_nat s; k = int (length ds) in
             if k \<le> n \<and> n \<le> 21 then ds @ replicate (nat (n - k)) (CHR ''0'')
             else if 0 < n \<and> n \<le> 21 then take (nat n) ds @ ''.'' @ drop (nat n) ds
             else if - 6 < n \<and> n \<le> 0 then ''0.'' @ replicate (nat (- n)) (CHR ''0'') @ ds
             else (let e = n - 1;
                       exponent = (if e < 0 then ''-'' else ''+'') @ show_nat (nat \<bar>e\<bar>)
                   in if k = 1 then ds @ ''e'' @ exponent
                      else take 1 ds @ ''.'' @ drop 1 ds @ ''e'' @ exponent)))"

text \<open>In JSON a finite number is written by \<open>Number::toString\<close>, any other as \<open>null\<close>.\<close>

definition SerializeJSONNumber :: "number \<Rightarrow> string" where
  "SerializeJSONNumber x =
     (case x of
        Finite neg s n \<Rightarrow> Number_toString x
      | _ \<Rightarrow> ''null'')"

definition hex_char :: "nat \<Rightarrow> char" where
  "hex_char d = (if d < 10 then char_of (48 + d) else char_of (87 + d))"

text \<open>
  \<open>QuoteJSONString\<close>: the quote, the backslash and the control characters are escaped,
  the five with a short form by it, the others as \<open>\u\<close> and four hexadecimal digits.
\<close>

definition quote_char :: "char \<Rightarrow> string" where
  "quote_char c =
     (if c = CHR 0x08 then [CHR 0x5C, CHR ''b'']
      else if c = CHR 0x09 then [CHR 0x5C, CHR ''t'']
      else if c = CHR 0x0A then [CHR 0x5C, CHR ''n'']
      else if c = CHR 0x0C then [CHR 0x5C, CHR ''f'']
      else if c = CHR 0x0D then [CHR 0x5C, CHR ''r'']
      else if c = CHR 0x22 then [CHR 0x5C, CHR 0x22]
      else if c = CHR 0x5C then [CHR 0x5C, CHR 0x5C]
      else if (of_char c :: nat) < 32
      then [CHR 0x5C, CHR ''u'', CHR ''0'', CHR ''0'',
            hex_char (of_char c div 16), hex_char (of_char c mod 16)]
      else [c])"

definition QuoteJSONString :: "string \<Rightarrow> string" where
  "QuoteJSONString s = CHR 0x22 # concat (map quote_char s) @ [CHR 0x22]"

definition gap :: string where
  "gap = ''  ''"

definition newline :: string where
  "newline = [CHR 0x0A]"

fun join_with :: "string \<Rightarrow> string list \<Rightarrow> string" where
  "join_with sep [] = []"
| "join_with sep [p] = p"
| "join_with sep (p # q # ps) = p @ sep @ join_with sep (q # ps)"

text \<open>
  \<open>JSON.stringify(value, null, 2)\<close>, the algorithm of ECMAScript with the gap of two
  spaces. \<open>SerializeJSONProperty\<close> takes the current indentation; \<open>None\<close> is
  \<open>undefined\<close>. An undefined array element is written \<open>null\<close>, an undefined property is
  left out.
\<close>

function SerializeJSONProperty :: "string \<Rightarrow> jsval \<Rightarrow> string option"
  and SerializeJSONElements :: "string \<Rightarrow> jsval list \<Rightarrow> string list"
  and SerializeJSONMembers :: "string \<Rightarrow> (string \<times> jsval) list \<Rightarrow> string list"
where
  "SerializeJSONProperty indent Undefined = None"
| "SerializeJSONProperty indent Null = Some ''null''"
| "SerializeJSONProperty indent (Bool b) = Some (if b then ''true'' else ''false'')"
| "SerializeJSONProperty indent (Num n) = Some (SerializeJSONNumber n)"
| "SerializeJSONProperty indent (Str s) = Some (QuoteJSONString s)"
| "SerializeJSONProperty stepback (Arr xs) =
     (let indent = stepback @ gap;
          partial = SerializeJSONElements indent xs
      in if partial = [] then Some ''[]''
         else Some (''['' @ newline @ indent @ join_with ('','' @ newline @ indent) partial
                    @ newline @ stepback @ '']''))"
| "SerializeJSONProperty stepback (Obj kvs) =
     (let indent = stepback @ gap;
          partial = SerializeJSONMembers indent kvs
      in if partial = [] then Some ''{}''
         else Some (''{'' @ newline @ indent @ join_with ('','' @ newline @ indent) partial
                    @ newline @ stepback @ ''}''))"
| "SerializeJSONElements indent [] = []"
| "SerializeJSONElements indent (x # xs) =
     (case SerializeJSONProperty indent x of None \<Rightarrow> ''null'' | Some strP \<Rightarrow> strP)
     # SerializeJSONElements indent xs"
| "SerializeJSONMembers indent [] = []"
| "SerializeJSONMembers indent ((P, v) # kvs) =
     (case SerializeJSONProperty indent v of
        None \<Rightarrow> SerializeJSONMembers indent kvs
      | Some strP \<Rightarrow> (QuoteJSONString P @ '': '' @ strP) # SerializeJSONMembers indent kvs)"
  by pat_completeness auto
termination
  by (relation "measure (\<lambda>a. case a of
          Inl (i, v) \<Rightarrow> size v
        | Inr (Inl (i, xs)) \<Rightarrow> size_list size xs
        | Inr (Inr (i, kvs)) \<Rightarrow> size_list (size_prod (\<lambda>k. 0) size) kvs)") auto

definition JSON_stringify :: "jsval \<Rightarrow> string option" where
  "JSON_stringify v = SerializeJSONProperty [] v"

section \<open>The file system, the clock and the console\<close>

text \<open>
  A \<open>Date\<close> object: the fields of the local time it stands for, the name of the time zone
  as \<open>toTimeString()\<close> writes it, and what \<open>toISOString()\<close> returns.
\<close>

record date =
  year :: nat
  month :: nat
  day :: nat
  hours :: nat
  minutes :: nat
  seconds :: nat
  getMilliseconds :: nat
  timeZone :: string
  toISOString :: string

datatype call = Mkdir string | WriteFile string string

datatype line = Stderr string | Stdout string

text \<open>
  The world a request runs in: the directories and the files (path and contents) that
  exist, what the file system refuses (\<open>mkdir_error\<close> and \<open>writeFile_error\<close> give the
  error with which an operation on a path is rejected, for whatever cause), the reading of
  the clock, the calls made to \<open>fs/promises\<close> and the lines written to the console, both
  oldest first.
\<close>

record world =
  dirs :: "string list"
  files :: "(string \<times> string) list"
  mkdir_error :: "string \<Rightarrow> error option"
  writeFile_error :: "string \<Rightarrow> error option"
  now :: date
  calls :: "call list"
  console :: "line list"

text \<open>\<open>fs.mkdir(folder, {recursive: true})\<close>: no error when the directory exists.\<close>

definition fs_mkdir :: "string \<Rightarrow> world \<Rightarrow> (error + unit) \<times> world" where
  "fs_mkdir folder w =
     (let w1 = w\<lparr>calls := calls w @ [Mkdir folder]\<rparr> in
      case mkdir_error w folder of
        Some e \<Rightarrow> (Inl e, w1)
      | None \<Rightarrow> (Inr (), w1\<lparr>dirs := List.insert folder (dirs w1)\<rparr>))"

text \<open>
  \<open>fs.writeFile(path, data, 'utf8')\<close>: the data replaces the contents of the file. Data that
  is \<open>undefined\<close> is rejected before the file system is touched. What a rejected write
  leaves on the disk is not modelled.
\<close>

definition fs_writeFile :: "string \<Rightarrow> string option \<Rightarrow> world \<Rightarrow> (error + unit) \<times> world" where
  "fs_writeFile path data w =
     (case data of
        None \<Rightarrow> (Inl (TypeError ''The data argument must be of type string. Received undefined''), w)
      | Some contents \<Rightarrow>
          (let w1 = w\<lparr>calls := calls w @ [WriteFile path contents]\<rparr> in
           case writeFile_error w path of
             Some e \<Rightarrow> (Inl e, w1)
           | None \<Rightarrow> (Inr (), w1\<lparr>files := AList.update path contents (files w1)\<rparr>)))"

text \<open>
  \<open>path.join(folder, fileName)\<close>: the joining and normalising of the two strings is the
  platform's and is the parameter \<open>join\<close>; an argument that is not a string is rejected.
\<close>

definition path_join :: "(string \<Rightarrow> string \<Rightarrow> string) \<Rightarrow> string \<Rightarrow> jsval \<Rightarrow> error + string" where
  "path_join join folder fileName =
     (case fileName of
        Str s \<Rightarrow> Inr (join folder s)
      | _ \<Rightarrow> Inl (TypeError ''The path argument must be of type string''))"

section \<open>The persister\<close>

fun truthy :: "jsval \<Rightarrow> bool" where
  "truthy Undefined = False"
| "truthy Null = False"
| "truthy (Bool b) = b"
| "truthy (Num n) = (case n of Finite neg s e \<Rightarrow> s \<noteq> 0 | Infinity neg \<Rightarrow> True | NaN \<Rightarrow> False)"
| "truthy (Str s) = (s \<noteq> [])"
| "truthy (Arr xs) = True"
| "truthy (Obj kvs) = True"

text \<open>\<open>s.replace(/a/g, b)\<close> for single characters, \<open>s.split(' ')[0]\<close> and \<open>s.padStart(n, c)\<close>.\<close>

definition replace_all :: "char \<Rightarrow> char \<Rightarrow> string \<Rightarrow> string" where
  "replace_all a b s = map (\<lambda>c. if c = a then b else c) s"

definition split_space_first :: "string \<Rightarrow> string" where
  "split_space_first s = takeWhile (\<lambda>c. c \<noteq> CHR '' '') s"

definition padStart :: "nat \<Rightarrow> char \<Rightarrow> string \<Rightarrow> string" where
  "padStart n c s = replicate (n - length s) c @ s"

text \<open>
  \<open>toLocaleDateString('en-GB')\<close>: the runtime writes the day and the month with two digits
  and the year in full, with \<open>/\<close> between them. \<open>toTimeString()\<close>: hours, minutes and
  seconds with two digits and \<open>:\<close> between them, a space and the time zone.
\<close>

definition toLocaleDateString :: "date \<Rightarrow> string" where
  "toLocaleDateString d =
     padStart 2 (CHR ''0'') (show_nat (day d)) @ ''/''
     @ padStart 2 (CHR ''0'') (show_nat (month d)) @ ''/''
     @ show_nat (year d)"

definition toTimeString :: "date \<Rightarrow> string" where
  "toTimeString d =
     padStart 2 (CHR ''0'') (show_nat (hours d)) @ '':''
     @ padStart 2 (CHR ''0'') (show_nat (minutes d)) @ '':''
     @ padStart 2 (CHR ''0'') (show_nat (seconds d)) @ '' '' @ timeZone d"

text \<open>The name made from the clock, lines 27 to 33 of \<open>src/saveData.ts\<close>.\<close>

definition timestamp_fileName :: "date \<Rightarrow> string" where
  "timestamp_fileName d =
     (let formattedDate = replace_all (CHR ''/'') (CHR ''-'') (toLocaleDateString d);
          time = replace_all (CHR '':'') (CHR ''-'') (split_space_first (toTimeString d));
          milliseconds = padStart 3 (CHR ''0'') (show_nat (getMilliseconds d))
      in ''data-'' @ formattedDate @ ''_'' @ time @ ''-'' @ milliseconds @ ''.json'')"

text \<open>\<open>data.fileData?.fileName\<close> and \<open>data.fileData.fileName\<close>.\<close>

definition fileData_fileName_opt :: "jsval \<Rightarrow> error + jsval" where
  "fileData_fileName_opt data =
     (case get_prop data ''fileData'' of
        Inl e \<Rightarrow> Inl e
      | Inr fileData \<Rightarrow>
          if fileData = Undefined \<or> fileData = Null then Inr Undefined
          else get_prop fileData ''fileName'')"

definition fileData_fileName :: "jsval \<Rightarrow> error + jsval" where
  "fileData_fileName data =
     (case get_prop data ''fileData'' of
        Inl e \<Rightarrow> Inl e
      | Inr fileData \<Rightarrow> get_prop fileData ''fileName'')"

text \<open>
  The choice of the file name, lines 25 to 33: the three operands of \<open>&&\<close> are evaluated
  in turn, each only when the ones before it are true, and the property is read again
  for the result.
\<close>

definition choose_fileName :: "jsval \<Rightarrow> date \<Rightarrow> error + jsval" where
  "choose_fileName data d =
     (case fileData_fileName_opt data of
        Inl e \<Rightarrow> Inl e
      | Inr f1 \<Rightarrow>
          if \<not> truthy f1 then Inr (Str (timestamp_fileName d))
          else case fileData_fileName data of
            Inl e \<Rightarrow> Inl e
          | Inr f2 \<Rightarrow>
              if typeof f2 \<noteq> ''string'' then Inr (Str (timestamp_fileName d))
              else case fileData_fileName data of
                Inl e \<Rightarrow> Inl e
              | Inr f3 \<Rightarrow>
                  (case call_trim f3 of
                     Inl e \<Rightarrow> Inl e
                   | Inr t \<Rightarrow>
                       if \<not> length t > 0 then Inr (Str (timestamp_fileName d))
                       else fileData_fileName data))"

text \<open>The body of the \<open>try\<close> block of \<open>saveData\<close>: the first error ends it.\<close>

definition saveData_try ::
  "(string \<Rightarrow> string \<Rightarrow> string) \<Rightarrow> jsval \<Rightarrow> string \<Rightarrow> world \<Rightarrow> (error + unit) \<times> world" where
  "saveData_try join data folder w =
     (case fs_mkdir folder w of
        (Inl e, w1) \<Rightarrow> (Inl e, w1)
      | (Inr u, w1) \<Rightarrow>
          (case choose_fileName data (now w1) of
             Inl e \<Rightarrow> (Inl e, w1)
           | Inr fileName \<Rightarrow>
               (case path_join join folder fileName of
                  Inl e \<Rightarrow> (Inl e, w1)
                | Inr filePath \<Rightarrow> fs_writeFile filePath (JSON_stringify data) w1)))"

text \<open>The two lines that the \<open>catch\<close> block of \<open>saveData\<close> writes with \<open>console.error\<close>.\<close>

definition save_error_lines :: "string \<Rightarrow> error \<Rightarrow> line list" where
  "save_error_lines folder error =
     [Stderr (''[SAVE ERROR] Check folder '' @ [CHR 0x22] @ folder @ [CHR 0x22]
              @ '' or permissions.''),
      Stderr (''[SAVE ERROR] '' @ message error)]"

text \<open>\<open>saveData\<close> of \<open>src/saveData.ts\<close>: the \<open>catch\<close> block logs two lines and throws anew.\<close>

definition saveData ::
  "(string \<Rightarrow> string \<Rightarrow> string) \<Rightarrow> jsval \<Rightarrow> string \<Rightarrow> world \<Rightarrow> (error + unit) \<times> world" where
  "saveData join data folder w =
     (case saveData_try join data folder w of
        (Inr u, w1) \<Rightarrow> (Inr (), w1)
      | (Inl error, w1) \<Rightarrow>
          (Inl (Error ''Failed to save data''),
           w1\<lparr>console := console w1 @ save_error_lines folder error\<rparr>))"

section \<open>The request handler\<close>

datatype body = Text string | Json jsval

datatype response = Response nat body

datatype outcome = Sent response | Next error

text \<open>The first line of \<open>error.stack\<close>; the frames that follow it are not modelled.\<close>

fun stack :: "error \<Rightarrow> string" where
  "stack (Error m) = ''Error: '' @ m"
| "stack (TypeError m) = ''TypeError: '' @ m"

definition log :: "string \<Rightarrow> world \<Rightarrow> world" where
  "log msg w = w\<lparr>console := console w @ [Stdout (''['' @ toISOString (now w) @ ''] '' @ msg)]\<rparr>"

text \<open>
  \<open>processRequest\<close>. The imported validator is the parameter \<open>validate\<close>, since the
  repository has two; \<open>save_folder\<close> is the constant \<open>SAVE_FOLDER\<close>. \<open>res.send('Success')\<close>
  answers with status 200; an error goes to \<open>next\<close>.
\<close>

definition processRequest ::
  "(jsval \<Rightarrow> error + bool) \<Rightarrow> (string \<Rightarrow> string \<Rightarrow> string) \<Rightarrow> string \<Rightarrow> jsval \<Rightarrow> world
     \<Rightarrow> outcome \<times> world" where
  "processRequest validate join save_folder req_body w =
     (case (case validate req_body of
              Inl e \<Rightarrow> (Inl e, w)
            | Inr ok \<Rightarrow>
                if \<not> ok then (Inl (Error ''Data is not in the correct format''), w)
                else (case saveData join req_body save_folder w of
                        (Inl e, w1) \<Rightarrow> (Inl e, w1)
                      | (Inr u, w1) \<Rightarrow>
                          (Inr (Response 200 (Text ''Success'')),
                           log ''Completed request and saved to file'' w1)))
      of
        (Inr r, w2) \<Rightarrow> (Sent r, w2)
      | (Inl error, w2) \<Rightarrow>
          (Next error,
           w2\<lparr>console := console w2 @ [Stderr (''[PROCESS ERROR] '' @ stack error)]\<rparr>))"

definition errorHandler :: "error \<Rightarrow> world \<Rightarrow> response \<times> world" where
  "errorHandler error w =
     (let w1 = w\<lparr>console := console w @ [Stderr (''[ERROR] '' @ message error)]\<rparr> in
      if message error = ''Data is not in the correct format''
      then (Response 400 (Json (Obj [(''error'', Str ''Invalid input data'')])), w1)
      else if message error = ''Failed to save data''
      then (Response 500 (Json (Obj [(''error'', Str ''Failed to save the provided data'')])), w1)
      else (Response 500 (Json (Obj [(''error'', Str ''Internal Server Error'')])), w1))"

text \<open>
  The route \<open>POST /process\<close>: the handler, and the error handler on what it passes to
  \<open>next\<close>.
\<close>

definition post_process ::
  "(jsval \<Rightarrow> error + bool) \<Rightarrow> (string \<Rightarrow> string \<Rightarrow> string) \<Rightarrow> string \<Rightarrow> jsval \<Rightarrow> world
     \<Rightarrow> response \<times> world" where
  "post_process validate join save_folder req_body w =
     (case processRequest validate join save_folder req_body w of
        (Sent r, w1) \<Rightarrow> (r, w1)
      | (Next error, w1) \<Rightarrow> errorHandler error w1)"

text \<open>
  The choice of the file name in the words of the specification: the override is the
  value of \<open>payload.fileData.fileName\<close> when that is a string which is not empty after
  trimming; the name is the override, untrimmed, when there is one, and the name made from
  the clock otherwise.
\<close>

definition fileName_override :: "jsval \<Rightarrow> string option" where
  "fileName_override payload =
     (case payload of
        Obj kvs \<Rightarrow>
          (case map_of kvs ''fileData'' of
             Some (Obj fkvs) \<Rightarrow>
               (case map_of fkvs ''fileName'' of
                  Some (Str s) \<Rightarrow> if trim s \<noteq> [] then Some s else None
                | _ \<Rightarrow> None)
           | _ \<Rightarrow> None)
      | _ \<Rightarrow> None)"

definition target_fileName :: "jsval \<Rightarrow> date \<Rightarrow> string" where
  "target_fileName payload d =
     (case fileName_override payload of
        Some s \<Rightarrow> s
      | None \<Rightarrow> timestamp_fileName d)"

section \<open>Joining paths\<close>

text \<open>
  \<open>path.join\<close> of Node on POSIX, for the instances in which the platform's joining is
  fixed. \<open>normalizeString\<close> walks the path once: \<open>res\<close> is the result so far,
  \<open>lastSegmentLength\<close> the length of its last segment, \<open>seg\<close> the characters read since
  the last separator and \<open>dots\<close> their count while they are all dots, \<open>- 1\<close> otherwise.
\<close>

record normalize_state =
  res :: string
  lastSegmentLength :: nat
  seg :: string
  dots :: int

definition lastIndexOf_slash :: "string \<Rightarrow> nat option" where
  "lastIndexOf_slash s =
     (if CHR ''/'' \<in> set s
      then Some (length s - 1 - length (takeWhile (\<lambda>c. c \<noteq> CHR ''/'') (rev s)))
      else None)"

definition ends_with_dots :: "string \<Rightarrow> bool" where
  "ends_with_dots s = (length s \<ge> 2 \<and> drop (length s - 2) s = ''..'')"

text \<open>What \<open>normalizeString\<close> does at a separator, and at the end of the path.\<close>

definition normalize_separator :: "bool \<Rightarrow> normalize_state \<Rightarrow> normalize_state" where
  "normalize_separator allowAboveRoot st =
     (let done = st\<lparr>seg := [], dots := 0\<rparr> in
      if seg st = [] \<or> dots st = 1 then done
      else if dots st = 2 then
        (if (length (res st) < 2 \<or> lastSegmentLength st \<noteq> 2 \<or> \<not> ends_with_dots (res st))
            \<and> length (res st) > 2
         then (case lastIndexOf_slash (res st) of
                 None \<Rightarrow> done\<lparr>res := [], lastSegmentLength := 0\<rparr>
               | Some i \<Rightarrow>
                   (let r = take i (res st) in
                    done\<lparr>res := r,
                         lastSegmentLength :=
                           (case lastIndexOf_slash r of
                              None \<Rightarrow> length r
                            | Some j \<Rightarrow> length r - 1 - j)\<rparr>))
         else if (length (res st) < 2 \<or> lastSegmentLength st \<noteq> 2 \<or> \<not> ends_with_dots (res st))
                 \<and> res st \<noteq> []
         then done\<lparr>res := [], lastSegmentLength := 0\<rparr>
         else if allowAboveRoot
         then done\<lparr>res := (if res st \<noteq> [] then res st @ ''/..'' else ''..''),
                   lastSegmentLength := 2\<rparr>
         else done)
      else done\<lparr>res := (if res st \<noteq> [] then res st @ ''/'' @ seg st else seg st),
                lastSegmentLength := length (seg st)\<rparr>)"

definition normalize_char :: "bool \<Rightarrow> normalize_state \<Rightarrow> char \<Rightarrow> normalize_state" where
  "normalize_char allowAboveRoot st c =
     (if c = CHR ''/'' then normalize_separator allowAboveRoot st
      else if c = CHR ''.'' \<and> dots st \<noteq> - 1
      then st\<lparr>seg := seg st @ [c], dots := dots st + 1\<rparr>
      else st\<lparr>seg := seg st @ [c], dots := - 1\<rparr>)"

definition normalizeString :: "string \<Rightarrow> bool \<Rightarrow> string" where
  "normalizeString path allowAboveRoot =
     (let st = foldl (normalize_char allowAboveRoot)
                 \<lparr>res = [], lastSegmentLength = 0, seg = [], dots = 0\<rparr> path
      in res (if path \<noteq> [] \<and> last path = CHR ''/'' then st
              else normalize_separator allowAboveRoot st))"

definition posix_normalize :: "string \<Rightarrow> string" where
  "posix_normalize path =
     (if path = [] then ''.''
      else
        (let isAbsolute = (hd path = CHR ''/'');
             trailingSeparator = (last path = CHR ''/'');
             p = normalizeString path (\<not> isAbsolute)
         in if p = [] then (if isAbsolute then ''/'' else if trailingSeparator then ''./'' else ''.'')
            else (if isAbsolute then ''/'' else []) @ p @ (if trailingSeparator then ''/'' else [])))"

definition posix_join :: "string \<Rightarrow> string \<Rightarrow> string" where
  "posix_join a b =
     (let joined = (if a = [] then b else if b = [] then a else a @ ''/'' @ b)
      in if joined = [] then ''.'' else posix_normalize joined)"

section \<open>Example inputs\<close>

text \<open>
  A clock reading, a world in which the file system refuses nothing and a plain joining
  of a folder and a name, for the examples.
\<close>

definition example_date :: date where
  "example_date =
     \<lparr>year = 2026, month = 11, day = 3, hours = 9, minutes = 5, seconds = 7,
      getMilliseconds = 42,
      timeZone = ''GMT+0000 (Greenwich Mean Time)'',
      toISOString = ''2026-11-03T09:05:07.042Z''\<rparr>"

definition example_world :: world where
  "example_world =
     \<lparr>dirs = [], files = [], mkdir_error = (\<lambda>p. None), writeFile_error = (\<lambda>p. None),
      now = example_date, calls = [], console = []\<rparr>"

definition example_join :: "string \<Rightarrow> string \<Rightarrow> string" where
  "example_join folder name = folder @ ''/'' @ name"

section \<open>Properties of the validators\<close>

lemma trim_nonempty: "trim s \<noteq> [] \<longleftrightarrow> (\<exists>c\<in>set s. \<not> is_whitespace c)"
proof -
  have "dropWhile is_whitespace s \<noteq> [] \<longleftrightarrow> (\<exists>c\<in>set s. \<not> is_whitespace c)"
    by simp
  moreover have "trim s \<noteq> [] \<longleftrightarrow> (\<exists>c\<in>set (dropWhile is_whitespace s). \<not> is_whitespace c)"
    by (simp add: trim_def)
  moreover have "(\<exists>c\<in>set (dropWhile is_whitespace s). \<not> is_whitespace c) \<longleftrightarrow> dropWhile is_whitespace s \<noteq> []"
    by (metis dropWhile_eq_Nil_conv dropWhile_idem)
  ultimately show ?thesis by simp
qed

lemma validateData_Obj:
  "validateData (Obj kvs) =
     Inr (\<exists>s. map_of kvs ''url'' = Some (Str s) \<and> (\<exists>c\<in>set s. \<not> is_whitespace c))"
proof (cases "map_of kvs ''url''")
  case None
  then show ?thesis by (simp add: validateData_def)
next
  case (Some u)
  then show ?thesis
    by (cases u) (simp_all add: validateData_def trim_nonempty [symmetric])
qed

lemma validateData_not_Obj: "(\<forall>kvs. v \<noteq> Obj kvs) \<Longrightarrow> validateData v = Inr False"
  by (cases v) (simp_all add: validateData_def)

text \<open>
  C2. The current validator returns true exactly on an object whose own property \<open>url\<close> is a
  string with a character that is not white space, which is what is left after trimming.
  It is true on \<open>{"url": "https://example.com"}\<close> and false on \<open>null\<close>, on \<open>{}\<close>, on
  \<open>{"url": ""}\<close> and on \<open>{"url": "   "}\<close>.
\<close>

theorem validateData_accepts_iff:
  "(validateData v = Inr True \<longleftrightarrow>
      (\<exists>kvs s. v = Obj kvs \<and> map_of kvs ''url'' = Some (Str s) \<and> trim s \<noteq> []
         \<and> (\<exists>c\<in>set s. \<not> is_whitespace c)))
   \<and> validateData (Obj [(''url'', Str ''https://example.com'')]) = Inr True
   \<and> validateData Null = Inr False
   \<and> validateData (Obj []) = Inr False
   \<and> validateData (Obj [(''url'', Str [])]) = Inr False
   \<and> validateData (Obj [(''url'', Str ''   '')]) = Inr False"
proof -
  have "validateData v = Inr True \<longleftrightarrow>
      (\<exists>kvs s. v = Obj kvs \<and> map_of kvs ''url'' = Some (Str s) \<and> trim s \<noteq> []
         \<and> (\<exists>c\<in>set s. \<not> is_whitespace c))"
  proof (cases "\<exists>kvs. v = Obj kvs")
    case True
    then show ?thesis by (auto simp: validateData_Obj trim_nonempty)
  next
    case False
    then show ?thesis by (simp add: validateData_not_Obj)
  qed
  moreover have "validateData (Obj [(''url'', Str ''https://example.com'')]) = Inr True"
    by (simp add: validateData_Obj is_whitespace_def)
  moreover have "validateData Null = Inr False"
    by (simp add: validateData_def)
  moreover have "validateData (Obj []) = Inr False"
    by (simp add: validateData_Obj)
  moreover have "validateData (Obj [(''url'', Str [])]) = Inr False"
    by (simp add: validateData_Obj)
  moreover have "validateData (Obj [(''url'', Str ''   '')]) = Inr False"
    by (simp add: validateData_Obj is_whitespace_def)
  ultimately show ?thesis by simp
qed

theorem validateData_accepts_iff_witness:
  "validateData (Obj [(''id'', Num (Finite False 7 1)), (''url'', Str '' a '')]) = Inr True
   \<and> validateData (Obj [(''url'', Num (Finite False 7 1))]) \<noteq> Inr True"
  using validateData_accepts_iff [of "Obj [(''id'', Num (Finite False 7 1)), (''url'', Str '' a '')]"]
        validateData_accepts_iff [of "Obj [(''url'', Num (Finite False 7 1))]"]
  by (simp add: is_whitespace_def trim_def)

text \<open>
  C7, as the claim states it, fails: the earlier validator tests \<open>typeof data === 'object'\<close>,
  and an array is of that type, so an array is accepted.
\<close>

theorem validateData_a_array_counterexample:
  "validateData_a (Arr []) = Inr True \<and> validateData_a (Arr []) \<noteq> Inr False"
  by (simp add: validateData_a_def)

text \<open>
  C7, amended. The earlier validator returns true on every array and on every other
  non-null object, and false on \<open>null\<close>, on \<open>undefined\<close> and on every primitive.
\<close>

theorem validateData_a_accepts_iff:
  "validateData_a v =
     Inr (case v of Arr xs \<Rightarrow> True | Obj kvs \<Rightarrow> True | _ \<Rightarrow> False)"
  by (cases v) (simp_all add: validateData_a_def)

text \<open>
  C8, as the claim states it, fails for the earlier validator, which returns true on an
  array.
\<close>

theorem validators_array_counterexample:
  "validateData_a (Arr [Num (Finite False 1 1), Num (Finite False 2 1)]) \<noteq> Inr False"
  by (simp add: validateData_a_def)

text \<open>
  C8, amended. Neither validator throws on any value. Both return false on \<open>null\<close> and on
  every value that is not of type object. The current validator returns false on every
  array and on every object without a property \<open>url\<close>; the earlier one returns true on
  every array and every object.
\<close>

theorem validators_total:
  "(\<exists>b. validateData v = Inr b) \<and> (\<exists>b. validateData_a v = Inr b)
   \<and> (typeof v \<noteq> ''object'' \<or> v = Null \<longrightarrow>
        validateData v = Inr False \<and> validateData_a v = Inr False)
   \<and> validateData (Arr xs) = Inr False
   \<and> (map_of kvs ''url'' = None \<longrightarrow> validateData (Obj kvs) = Inr False)
   \<and> validateData_a (Arr xs) = Inr True
   \<and> validateData_a (Obj kvs) = Inr True"
proof -
  have "\<exists>b. validateData v = Inr b"
    by (cases "\<exists>kvs. v = Obj kvs") (auto simp: validateData_Obj validateData_not_Obj)
  moreover have "\<exists>b. validateData_a v = Inr b"
    by (simp add: validateData_a_def)
  moreover have "typeof v \<noteq> ''object'' \<or> v = Null \<longrightarrow>
        validateData v = Inr False \<and> validateData_a v = Inr False"
    by (auto simp: validateData_def validateData_a_def)
  moreover have "validateData (Arr xs) = Inr False"
    by (simp add: validateData_not_Obj)
  moreover have "map_of kvs ''url'' = None \<longrightarrow> validateData (Obj kvs) = Inr False"
    by (simp add: validateData_Obj)
  moreover have "validateData_a (Arr xs) = Inr True" "validateData_a (Obj kvs) = Inr True"
    by (simp_all add: validateData_a_def)
  ultimately show ?thesis by simp
qed

theorem validators_total_witness:
  "validateData (Str ''url'') = Inr False \<and> validateData_a (Str ''url'') = Inr False
   \<and> validateData Undefined = Inr False \<and> validateData_a Undefined = Inr False
   \<and> validateData (Obj [(''key'', Str ''value'')]) = Inr False"
  using validators_total [of "Str ''url''" "[]" "[(''key'', Str ''value'')]"]
        validators_total [of Undefined "[]" "[]"]
  by simp

section \<open>Properties of the configuration\<close>

lemma of_char_digit_char: "d < 10 \<Longrightarrow> (of_char (digit_char d) :: nat) = 48 + d"
  by (simp add: digit_char_def)

lemma is_digit_not_special:
  "is_digit c \<Longrightarrow> \<not> is_whitespace c \<and> c \<noteq> CHR ''-'' \<and> c \<noteq> CHR ''+''"
  by (auto simp: is_digit_def is_whitespace_def)

lemma digit_char_props:
  "d < 10 \<Longrightarrow> is_digit (digit_char d) \<and> digit_val (digit_char d) = d"
  by (simp add: is_digit_def digit_val_def of_char_digit_char)

lemma show_nat_digits: "\<forall>c\<in>set (show_nat n). is_digit c"
proof (induction n rule: show_nat.induct)
  case (1 n)
  show ?case
  proof (cases "n < 10")
    case True
    then show ?thesis by (subst show_nat.simps) (simp add: digit_char_props)
  next
    case False
    with 1 show ?thesis by (subst show_nat.simps) (simp add: digit_char_props)
  qed
qed

lemma show_nat_nonempty: "show_nat n \<noteq> []"
  by (subst show_nat.simps) simp

lemma digits_value_snoc: "digits_value (ds @ [c]) = 10 * digits_value ds + digit_val c"
  by (simp add: digits_value_def)

lemma digits_value_show_nat: "digits_value (show_nat n) = n"
proof (induction n rule: show_nat.induct)
  case (1 n)
  show ?case
  proof (cases "n < 10")
    case True
    then show ?thesis
      by (subst show_nat.simps) (simp add: digits_value_def digit_char_props)
  next
    case False
    with 1 show ?thesis
      by (subst show_nat.simps) (simp add: digits_value_snoc digit_char_props)
  qed
qed

lemma parseInt_digits:
  assumes "ds \<noteq> []" and "\<forall>c\<in>set ds. is_digit c"
  shows "parseInt ds = Some (int (digits_value ds))"
proof -
  obtain c r where cr: "ds = c # r" using assms(1) by (cases ds) auto
  have c: "is_digit c" using assms(2) cr by simp
  have tw: "takeWhile is_digit ds = ds"
    using assms(2) by simp
  have dw: "dropWhile is_whitespace ds = ds"
    using c cr is_digit_not_special [of c] by simp
  have "parseInt ds = (if takeWhile is_digit ds = [] then None
                       else Some (int (digits_value (takeWhile is_digit ds))))"
    unfolding parseInt_def dw Let_def
    using c is_digit_not_special [of c] by (simp add: cr)
  then show ?thesis using tw assms(1) by simp
qed

lemma parseInt_show_nat: "parseInt (show_nat n) = Some (int n)"
  using parseInt_digits [OF show_nat_nonempty show_nat_digits, of n]
  by (simp add: digits_value_show_nat)

lemma getPort_iff: "getPort s = Inr p \<longleftrightarrow> parseInt s = Some p \<and> 1024 \<le> p \<and> p \<le> 65535"
  by (auto simp: getPort_def split: option.splits)

lemma getEnvVar_unset_default: "env key = None \<Longrightarrow> getEnvVar env key (Some d) = Inr d"
  by (simp add: getEnvVar_def)

lemma getPort_3000: "getPort ''3000'' = Inr 3000"
  by (simp add: getPort_def parseInt_def is_whitespace_def is_digit_def digits_value_def digit_val_def)

text \<open>
  C9. \<open>getPort s\<close> returns a number exactly when \<open>parseInt\<close> reads one from \<open>s\<close> and it
  lies in the range 1024 to 65535, and it is then that number; in every other case it throws
  the error \<open>Invalid PORT_NUMBER: s\<close>. So the decimal text of every number in the range
  gives that number and the decimal text of every number outside gives the error. With
  \<open>PORT_NUMBER\<close> unset, \<open>PORT\<close> is 3000.
\<close>

theorem getPort_range:
  "(getPort s = Inr p \<longleftrightarrow> parseInt s = Some p \<and> 1024 \<le> p \<and> p \<le> 65535)
   \<and> ((\<forall>q. parseInt s = Some q \<longrightarrow> q < 1024 \<or> 65535 < q) \<longrightarrow>
        getPort s = Inl (Error (''Invalid PORT_NUMBER: '' @ s)))
   \<and> (1024 \<le> n \<and> n \<le> 65535 \<longrightarrow> getPort (show_nat n) = Inr (int n))
   \<and> (n < 1024 \<or> 65535 < n \<longrightarrow>
        getPort (show_nat n) = Inl (Error (''Invalid PORT_NUMBER: '' @ show_nat n)))
   \<and> (env ''PORT_NUMBER'' = None \<longrightarrow> PORT env = Inr 3000)"
proof -
  have "1024 \<le> n \<and> n \<le> 65535 \<longrightarrow> getPort (show_nat n) = Inr (int n)"
    by (simp add: getPort_def parseInt_show_nat)
  moreover have "n < 1024 \<or> 65535 < n \<longrightarrow>
        getPort (show_nat n) = Inl (Error (''Invalid PORT_NUMBER: '' @ show_nat n))"
    by (auto simp: getPort_def parseInt_show_nat)
  moreover have "env ''PORT_NUMBER'' = None \<longrightarrow> PORT env = Inr 3000"
    by (simp add: PORT_def getEnvVar_unset_default getPort_3000)
  moreover have "(\<forall>q. parseInt s = Some q \<longrightarrow> q < 1024 \<or> 65535 < q) \<longrightarrow>
        getPort s = Inl (Error (''Invalid PORT_NUMBER: '' @ s))"
    by (auto simp: getPort_def split: option.splits)
  ultimately show ?thesis
    using getPort_iff [of s p] by blast
qed

theorem getPort_range_witness:
  "getPort ''8080'' = Inr 8080
   \<and> getPort ''3000abc'' = Inr 3000
   \<and> getPort ''99999'' = Inl (Error ''Invalid PORT_NUMBER: 99999'')
   \<and> getPort ''abc'' = Inl (Error ''Invalid PORT_NUMBER: abc'')
   \<and> PORT Map.empty = Inr 3000"
proof -
  have p1: "parseInt ''8080'' = Some 8080"
    by (simp add: parseInt_def is_whitespace_def is_digit_def digits_value_def digit_val_def)
  have p2: "parseInt ''99999'' = Some 99999"
    by (simp add: parseInt_def is_whitespace_def is_digit_def digits_value_def digit_val_def)
  have p3: "parseInt ''abc'' = None"
    by (simp add: parseInt_def is_whitespace_def is_digit_def)
  have p4: "parseInt ''3000abc'' = Some 3000"
    by (simp add: parseInt_def is_whitespace_def is_digit_def digits_value_def digit_val_def)
  show ?thesis
    using getPort_range [of "''8080''" 8080 0 Map.empty]
          getPort_range [of "''99999''" 99999 0 Map.empty]
          getPort_range [of "''abc''" 0 0 Map.empty]
          getPort_range [of "''3000abc''" 3000 0 Map.empty] p1 p2 p3 p4
    by simp
qed

text \<open>
  C10. An environment variable set to the empty string is read as an unset one: with a
  default the default is returned, without one the error \<open>Environment variable key is not
  set\<close> is thrown, and the result is that of the environment without the variable. So a blank
  \<open>DATA_LOCATION\<close> gives the folder \<open>./data\<close> and a blank \<open>PORT_NUMBER\<close> the port 3000.
\<close>

theorem getEnvVar_empty_is_unset:
  "(env key = Some [] \<longrightarrow>
      getEnvVar env key (Some d) = Inr d
      \<and> getEnvVar env key None = Inl (Error (''Environment variable '' @ key @ '' is not set''))
      \<and> getEnvVar env key dflt = getEnvVar (env(key := None)) key dflt)
   \<and> (env ''DATA_LOCATION'' = Some [] \<longrightarrow> SAVE_FOLDER env = Inr ''./data'')
   \<and> (env ''PORT_NUMBER'' = Some [] \<longrightarrow> PORT env = Inr 3000)"
  by (simp add: getEnvVar_def SAVE_FOLDER_def PORT_def getPort_3000)

theorem getEnvVar_empty_is_unset_witness:
  "getEnvVar [''DATA_LOCATION'' \<mapsto> [], ''PORT_NUMBER'' \<mapsto> []] ''DATA_LOCATION'' (Some ''d'') = Inr ''d''
   \<and> SAVE_FOLDER [''DATA_LOCATION'' \<mapsto> [], ''PORT_NUMBER'' \<mapsto> []] = Inr ''./data''
   \<and> PORT [''DATA_LOCATION'' \<mapsto> [], ''PORT_NUMBER'' \<mapsto> []] = Inr 3000"
  using getEnvVar_empty_is_unset
          [of "[''DATA_LOCATION'' \<mapsto> [], ''PORT_NUMBER'' \<mapsto> []]" "''DATA_LOCATION''" "''d''" None]
  by simp

section \<open>Properties of the persister\<close>

lemma choose_fileName_eq:
  assumes "data \<noteq> Undefined" and "data \<noteq> Null"
  shows "choose_fileName data d = Inr (Str (target_fileName data d))"
proof (cases "\<exists>kvs. data = Obj kvs")
  case False
  then have "get_prop data ''fileData'' = Inr Undefined"
    using assms by (cases data) simp_all
  moreover have "fileName_override data = None"
    using False by (cases data) (simp_all add: fileName_override_def)
  ultimately show ?thesis
    by (simp add: choose_fileName_def fileData_fileName_opt_def target_fileName_def)
next
  case True
  then obtain kvs where data: "data = Obj kvs" by blast
  show ?thesis
  proof (cases "\<exists>fkvs. map_of kvs ''fileData'' = Some (Obj fkvs)")
    case False
    then have "fileName_override data = None"
      by (auto simp: fileName_override_def data split: option.splits jsval.splits)
    moreover have "fileData_fileName_opt data = Inr Undefined"
      using False
      by (cases "map_of kvs ''fileData''"; cases "the (map_of kvs ''fileData'')")
         (simp_all add: fileData_fileName_opt_def data)
    ultimately show ?thesis
      by (simp add: choose_fileName_def target_fileName_def)
  next
    case True
    then obtain fkvs where fd: "map_of kvs ''fileData'' = Some (Obj fkvs)" by blast
    have opt: "fileData_fileName_opt data = fileData_fileName data"
      by (simp add: fileData_fileName_opt_def fileData_fileName_def data fd)
    show ?thesis
    proof (cases "map_of fkvs ''fileName''")
      case None
      then show ?thesis
        by (simp add: choose_fileName_def target_fileName_def fileName_override_def
            fileData_fileName_opt_def data fd)
    next
      case (Some f)
      then show ?thesis
        by (cases f)
           (simp_all add: choose_fileName_def target_fileName_def fileName_override_def
              fileData_fileName_opt_def fileData_fileName_def data fd trim_def)
    qed
  qed
qed


lemma SerializeJSONProperty_defined:
  "v \<noteq> Undefined \<Longrightarrow> \<exists>t. SerializeJSONProperty ind v = Some t"
  by (cases v) (simp_all add: Let_def)

lemma JSON_stringify_defined: "v \<noteq> Undefined \<Longrightarrow> \<exists>t. JSON_stringify v = Some t"
  by (simp add: JSON_stringify_def SerializeJSONProperty_defined)

lemma saveData_mkdir_fails:
  assumes "mkdir_error w folder = Some e"
  shows "saveData join data folder w =
           (Inl (Error ''Failed to save data''),
            w\<lparr>calls := calls w @ [Mkdir folder],
              console := console w @ save_error_lines folder e\<rparr>)"
  using assms
  by (simp add: saveData_def saveData_try_def fs_mkdir_def save_error_lines_def)

lemma saveData_write_fails:
  assumes "data \<noteq> Undefined" and "data \<noteq> Null"
    and "JSON_stringify data = Some contents"
    and "mkdir_error w folder = None"
    and "writeFile_error w (join folder (target_fileName data (now w))) = Some e"
  shows "saveData join data folder w =
           (Inl (Error ''Failed to save data''),
            w\<lparr>calls := calls w @ [Mkdir folder,
                   WriteFile (join folder (target_fileName data (now w))) contents],
              dirs := List.insert folder (dirs w),
              console := console w @ save_error_lines folder e\<rparr>)"
  using assms
  by (simp add: saveData_def saveData_try_def fs_mkdir_def fs_writeFile_def path_join_def
      choose_fileName_eq save_error_lines_def)

lemma saveData_succeeds:
  assumes "data \<noteq> Undefined" and "data \<noteq> Null"
    and "JSON_stringify data = Some contents"
    and "mkdir_error w folder = None"
    and "writeFile_error w (join folder (target_fileName data (now w))) = None"
  shows "saveData join data folder w =
           (Inr (),
            w\<lparr>calls := calls w @ [Mkdir folder,
                   WriteFile (join folder (target_fileName data (now w))) contents],
              dirs := List.insert folder (dirs w),
              files := AList.update (join folder (target_fileName data (now w))) contents
                         (files w)\<rparr>)"
  using assms
  by (simp add: saveData_def saveData_try_def fs_mkdir_def fs_writeFile_def path_join_def
      choose_fileName_eq)

lemma saveData_error: "fst (saveData join data folder w) = Inl e \<Longrightarrow> e = Error ''Failed to save data''"
  by (auto simp: saveData_def split: prod.splits sum.splits)


text \<open>
  C5. Whatever makes \<open>saveData\<close> fail, the error it throws is \<open>Failed to save data\<close>, so
  the cause cannot be told from it. When the directory cannot be made, it first logs the
  folder and the message of the cause, the only call made to the file system is the
  \<open>mkdir\<close>, and the files and directories are as before: the write is not reached. When the
  write fails, it logs the folder and the message of that cause and throws the same error.
\<close>

theorem saveData_failure_opaque:
  "(fst (saveData join data folder w) = Inl e \<longrightarrow> e = Error ''Failed to save data'')
   \<and> (mkdir_error w folder = Some e1 \<longrightarrow>
        fst (saveData join data folder w) = Inl (Error ''Failed to save data'')
        \<and> console (snd (saveData join data folder w)) =
            console w @ [Stderr (''[SAVE ERROR] Check folder '' @ [CHR 0x22] @ folder
                                 @ [CHR 0x22] @ '' or permissions.''),
                         Stderr (''[SAVE ERROR] '' @ message e1)]
        \<and> calls (snd (saveData join data folder w)) = calls w @ [Mkdir folder]
        \<and> files (snd (saveData join data folder w)) = files w
        \<and> dirs (snd (saveData join data folder w)) = dirs w)
   \<and> (data \<noteq> Undefined \<and> data \<noteq> Null \<and> mkdir_error w folder = None
        \<and> writeFile_error w (join folder (target_fileName data (now w))) = Some e2 \<longrightarrow>
        fst (saveData join data folder w) = Inl (Error ''Failed to save data'')
        \<and> console (snd (saveData join data folder w)) =
            console w @ [Stderr (''[SAVE ERROR] Check folder '' @ [CHR 0x22] @ folder
                                 @ [CHR 0x22] @ '' or permissions.''),
                         Stderr (''[SAVE ERROR] '' @ message e2)])"
proof -
  have "fst (saveData join data folder w) = Inl e \<longrightarrow> e = Error ''Failed to save data''"
    using saveData_error by blast
  moreover have "mkdir_error w folder = Some e1 \<longrightarrow>
        fst (saveData join data folder w) = Inl (Error ''Failed to save data'')
        \<and> console (snd (saveData join data folder w)) =
            console w @ [Stderr (''[SAVE ERROR] Check folder '' @ [CHR 0x22] @ folder
                                 @ [CHR 0x22] @ '' or permissions.''),
                         Stderr (''[SAVE ERROR] '' @ message e1)]
        \<and> calls (snd (saveData join data folder w)) = calls w @ [Mkdir folder]
        \<and> files (snd (saveData join data folder w)) = files w
        \<and> dirs (snd (saveData join data folder w)) = dirs w"
    by (simp add: saveData_mkdir_fails save_error_lines_def)
  moreover have "data \<noteq> Undefined \<and> data \<noteq> Null \<and> mkdir_error w folder = None
        \<and> writeFile_error w (join folder (target_fileName data (now w))) = Some e2 \<longrightarrow>
        fst (saveData join data folder w) = Inl (Error ''Failed to save data'')
        \<and> console (snd (saveData join data folder w)) =
            console w @ [Stderr (''[SAVE ERROR] Check folder '' @ [CHR 0x22] @ folder
                                 @ [CHR 0x22] @ '' or permissions.''),
                         Stderr (''[SAVE ERROR] '' @ message e2)]"
  proof (intro impI)
    assume h: "data \<noteq> Undefined \<and> data \<noteq> Null \<and> mkdir_error w folder = None
        \<and> writeFile_error w (join folder (target_fileName data (now w))) = Some e2"
    then obtain contents where "JSON_stringify data = Some contents"
      using JSON_stringify_defined by blast
    with h show "fst (saveData join data folder w) = Inl (Error ''Failed to save data'')
        \<and> console (snd (saveData join data folder w)) =
            console w @ [Stderr (''[SAVE ERROR] Check folder '' @ [CHR 0x22] @ folder
                                 @ [CHR 0x22] @ '' or permissions.''),
                         Stderr (''[SAVE ERROR] '' @ message e2)]"
      by (simp add: saveData_write_fails save_error_lines_def)
  qed
  ultimately show ?thesis by blast
qed

lemma example_world_simps:
  "mkdir_error example_world = (\<lambda>p. None)" "writeFile_error example_world = (\<lambda>p. None)"
  "now example_world = example_date" "dirs example_world = []" "files example_world = []"
  "calls example_world = []" "console example_world = []"
  by (simp_all add: example_world_def)

theorem saveData_failure_opaque_witness:
  "fst (saveData example_join (Obj [(''key'', Str ''value'')]) ''./data''
          (example_world\<lparr>mkdir_error := (\<lambda>p. Some (Error ''EEXIST: file already exists''))\<rparr>))
     = Inl (Error ''Failed to save data'')
   \<and> files (snd (saveData example_join (Obj [(''key'', Str ''value'')]) ''./data''
          (example_world\<lparr>mkdir_error := (\<lambda>p. Some (Error ''EEXIST: file already exists''))\<rparr>)))
     = []
   \<and> fst (saveData example_join (Obj [(''key'', Str ''value'')]) ''./data''
          (example_world\<lparr>writeFile_error := (\<lambda>p. Some (Error ''ENOSPC: no space left on device''))\<rparr>))
     = Inl (Error ''Failed to save data'')"
  using saveData_failure_opaque
          [of example_join "Obj [(''key'', Str ''value'')]" "''./data''"
              "example_world\<lparr>mkdir_error := (\<lambda>p. Some (Error ''EEXIST: file already exists''))\<rparr>"
              "Error ''Failed to save data''" "Error ''EEXIST: file already exists''"
              "Error ''x''"]
        saveData_failure_opaque
          [of example_join "Obj [(''key'', Str ''value'')]" "''./data''"
              "example_world\<lparr>writeFile_error := (\<lambda>p. Some (Error ''ENOSPC: no space left on device''))\<rparr>"
              "Error ''Failed to save data''" "Error ''x''"
              "Error ''ENOSPC: no space left on device''"]
  by (simp add: example_world_simps)

lemma replace_all_absent: "a \<noteq> b \<Longrightarrow> a \<notin> set (replace_all a b s)"
  by (auto simp: replace_all_def)

lemma replace_all_length: "length (replace_all a b s) = length s"
  by (simp add: replace_all_def)

lemma split_space_first_no_space: "CHR '' '' \<notin> set (split_space_first s)"
  by (auto simp: split_space_first_def dest: set_takeWhileD)

lemma show_nat_length: "n < 1000 \<Longrightarrow> length (show_nat n) \<le> 3"
  by (simp add: show_nat.simps [of n] show_nat.simps [of "n div 10"]
      show_nat.simps [of "n div 10 div 10"])

lemma padStart_length: "length (padStart n c s) = max n (length s)"
  by (simp add: padStart_def)

lemma digits_value_append:
  "digits_value (xs @ ys) = foldl (\<lambda>a c. 10 * a + digit_val c) (digits_value xs) ys"
  by (simp add: digits_value_def)

lemma digits_value_zeros: "digits_value (replicate k (CHR ''0'')) = 0"
  by (induction k) (simp_all add: digits_value_def digit_val_def)

lemma digit_char_numerals:
  "digit_char 0 = CHR ''0''" "digit_char 1 = CHR ''1''" "digit_char 2 = CHR ''2''"
  "digit_char 3 = CHR ''3''" "digit_char 4 = CHR ''4''" "digit_char 5 = CHR ''5''"
  "digit_char 6 = CHR ''6''" "digit_char 7 = CHR ''7''" "digit_char 8 = CHR ''8''"
  "digit_char 9 = CHR ''9''" "digit_char (Suc 0) = CHR ''1''"
  by (simp_all add: digit_char_def char_of_eq_iff)

lemma digits_value_padStart: "digits_value (padStart n (CHR ''0'') s) = digits_value s"
  by (simp add: padStart_def digits_value_append digits_value_zeros) (simp add: digits_value_def)

lemma padStart_digits:
  "\<forall>c\<in>set s. is_digit c \<Longrightarrow> \<forall>c\<in>set (padStart n (CHR ''0'') s). is_digit c"
  by (auto simp: padStart_def is_digit_def)

lemma milliseconds_field:
  "(\<forall>c\<in>set (padStart 3 (CHR ''0'') (show_nat n)). is_digit c)
   \<and> digits_value (padStart 3 (CHR ''0'') (show_nat n)) = n
   \<and> (n < 1000 \<longrightarrow> length (padStart 3 (CHR ''0'') (show_nat n)) = 3)"
  using show_nat_length [of n] padStart_digits [OF show_nat_digits, of 3 n]
  by (auto simp: digits_value_padStart digits_value_show_nat padStart_length)

lemma fileName_choice:
  "(fileName_override data = Some s \<longrightarrow>
       choose_fileName data d = Inr (Str s)
       \<and> (\<exists>kvs fkvs. data = Obj kvs \<and> map_of kvs ''fileData'' = Some (Obj fkvs)
             \<and> map_of fkvs ''fileName'' = Some (Str s) \<and> trim s \<noteq> []))
   \<and> (fileName_override data = None \<and> data \<noteq> Undefined \<and> data \<noteq> Null \<longrightarrow>
       choose_fileName data d = Inr (Str (timestamp_fileName d)))
   \<and> (data \<noteq> Undefined \<and> data \<noteq> Null \<and> mkdir_error w folder = None \<longrightarrow>
       (\<exists>contents. calls (snd (saveData join data folder w)) =
          calls w @ [Mkdir folder, WriteFile (join folder (target_fileName data (now w))) contents]))"
proof -
  have a: "fileName_override data = Some s \<longrightarrow>
       choose_fileName data d = Inr (Str s)
       \<and> (\<exists>kvs fkvs. data = Obj kvs \<and> map_of kvs ''fileData'' = Some (Obj fkvs)
             \<and> map_of fkvs ''fileName'' = Some (Str s) \<and> trim s \<noteq> [])"
  proof (intro impI conjI)
    assume h: "fileName_override data = Some s"
    then have "data \<noteq> Undefined" "data \<noteq> Null"
      by (auto simp: fileName_override_def)
    then show "choose_fileName data d = Inr (Str s)"
      using h by (simp add: choose_fileName_eq target_fileName_def)
    show "\<exists>kvs fkvs. data = Obj kvs \<and> map_of kvs ''fileData'' = Some (Obj fkvs)
             \<and> map_of fkvs ''fileName'' = Some (Str s) \<and> trim s \<noteq> []"
      using h by (auto simp: fileName_override_def split: jsval.splits option.splits if_splits)
  qed
  have b: "fileName_override data = None \<and> data \<noteq> Undefined \<and> data \<noteq> Null \<longrightarrow>
       choose_fileName data d = Inr (Str (timestamp_fileName d))"
    by (simp add: choose_fileName_eq target_fileName_def)
  have c: "data \<noteq> Undefined \<and> data \<noteq> Null \<and> mkdir_error w folder = None \<longrightarrow>
       (\<exists>contents. calls (snd (saveData join data folder w)) =
          calls w @ [Mkdir folder, WriteFile (join folder (target_fileName data (now w))) contents])"
  proof (intro impI)
    assume h: "data \<noteq> Undefined \<and> data \<noteq> Null \<and> mkdir_error w folder = None"
    then obtain contents where js: "JSON_stringify data = Some contents"
      using JSON_stringify_defined by blast
    have "calls (snd (saveData join data folder w)) =
          calls w @ [Mkdir folder, WriteFile (join folder (target_fileName data (now w))) contents]"
    proof (cases "writeFile_error w (join folder (target_fileName data (now w)))")
      case None
      with h js show ?thesis by (simp add: saveData_succeeds)
    next
      case (Some e)
      with h js show ?thesis by (simp add: saveData_write_fails)
    qed
    then show "\<exists>contents. calls (snd (saveData join data folder w)) =
          calls w @ [Mkdir folder, WriteFile (join folder (target_fileName data (now w))) contents]"
      by blast
  qed
  from a b c show ?thesis by blast
qed

lemma replace_all_digits:
  "\<not> is_digit a \<Longrightarrow> \<forall>c\<in>set s. is_digit c \<Longrightarrow> replace_all a b s = s"
  by (auto simp: replace_all_def intro!: map_idI)

lemma replace_all_append:
  "replace_all a b (xs @ ys) = replace_all a b xs @ replace_all a b ys"
  by (simp add: replace_all_def)

lemma two_digits: "\<forall>c\<in>set (padStart 2 (CHR ''0'') (show_nat n)). is_digit c"
  by (rule padStart_digits) (rule show_nat_digits)

lemma date_part:
  "replace_all (CHR ''/'') (CHR ''-'') (toLocaleDateString d) =
     padStart 2 (CHR ''0'') (show_nat (day d)) @ ''-''
     @ padStart 2 (CHR ''0'') (show_nat (month d)) @ ''-''
     @ show_nat (year d)"
proof -
  have nd: "\<not> is_digit (CHR ''/'')" by (simp add: is_digit_def)
  show ?thesis
    unfolding toLocaleDateString_def replace_all_append
    by (simp add: replace_all_digits [OF nd two_digits] replace_all_digits [OF nd show_nat_digits])
       (simp add: replace_all_def)
qed

lemma time_part:
  "replace_all (CHR '':'') (CHR ''-'') (split_space_first (toTimeString d)) =
     padStart 2 (CHR ''0'') (show_nat (hours d)) @ ''-''
     @ padStart 2 (CHR ''0'') (show_nat (minutes d)) @ ''-''
     @ padStart 2 (CHR ''0'') (show_nat (seconds d))"
proof -
  let ?hms = "padStart 2 (CHR ''0'') (show_nat (hours d)) @ '':''
     @ padStart 2 (CHR ''0'') (show_nat (minutes d)) @ '':''
     @ padStart 2 (CHR ''0'') (show_nat (seconds d))"
  have nd: "\<not> is_digit (CHR '':'')" by (simp add: is_digit_def)
  have nosp: "\<forall>c\<in>set ?hms. c \<noteq> CHR '' ''"
    using two_digits [of "hours d"] two_digits [of "minutes d"] two_digits [of "seconds d"]
    by (auto simp: is_digit_def)
  have "toTimeString d = ?hms @ CHR '' '' # timeZone d"
    by (simp add: toTimeString_def)
  then have "split_space_first (toTimeString d) = ?hms"
    using nosp by (simp add: split_space_first_def takeWhile_tail)
  moreover have r: "replace_all (CHR '':'') (CHR ''-'') (padStart 2 (CHR ''0'') (show_nat n))
                     = padStart 2 (CHR ''0'') (show_nat n)" for n
    by (rule replace_all_digits [OF nd two_digits])
  moreover have sep: "replace_all (CHR '':'') (CHR ''-'') (CHR '':'' # xs)
                     = CHR ''-'' # replace_all (CHR '':'') (CHR ''-'') xs" for xs
    by (simp add: replace_all_def)
  ultimately show ?thesis
    by (simp add: replace_all_append)
qed

lemma example_timestamp:
  "timestamp_fileName example_date = ''data-03-11-2026_09-05-07-042.json''"
  by (simp add: timestamp_fileName_def date_part time_part example_date_def
      padStart_def show_nat.simps digit_char_numerals)

text \<open>
  C3. When \<open>payload.fileData.fileName\<close> is a string that is not empty after trimming, the
  file name is that string untrimmed, as lemma \<open>fileName_choice\<close> has it; otherwise it is
  the name made from the clock. That name is \<open>data-\<close>, day, month and year with \<open>-\<close>
  between them, \<open>_\<close>, hours, minutes and seconds with \<open>-\<close> between them, \<open>-\<close>, the
  milliseconds padded to three digits, and \<open>.json\<close>. Day and month have two digits, but
  the year is written in full, where the comment on line 29 of \<open>src/saveData.ts\<close> and the
  claim say \<open>DD-MM-YY\<close>: on 3 November 2026 at 09:05:07.042 the name is
  \<open>data-03-11-2026_09-05-07-042.json\<close> and not \<open>data-03-11-26_09-05-07-042.json\<close>.
\<close>

theorem saveData_fileName_year:
  "timestamp_fileName d =
     ''data-'' @ padStart 2 (CHR ''0'') (show_nat (day d)) @ ''-''
     @ padStart 2 (CHR ''0'') (show_nat (month d)) @ ''-''
     @ show_nat (year d) @ ''_''
     @ padStart 2 (CHR ''0'') (show_nat (hours d)) @ ''-''
     @ padStart 2 (CHR ''0'') (show_nat (minutes d)) @ ''-''
     @ padStart 2 (CHR ''0'') (show_nat (seconds d)) @ ''-''
     @ padStart 3 (CHR ''0'') (show_nat (getMilliseconds d)) @ ''.json''
   \<and> choose_fileName (Obj [(''url'', Str ''https://example.com'')]) example_date
       = Inr (Str ''data-03-11-2026_09-05-07-042.json'')
   \<and> choose_fileName (Obj [(''url'', Str ''https://example.com'')]) example_date
       \<noteq> Inr (Str ''data-03-11-26_09-05-07-042.json'')
   \<and> choose_fileName (Obj [(''fileData'', Obj [(''fileName'', Str '' report.json '')])])
         example_date
       = Inr (Str '' report.json '')"
proof -
  have layout: "timestamp_fileName d =
     ''data-'' @ padStart 2 (CHR ''0'') (show_nat (day d)) @ ''-''
     @ padStart 2 (CHR ''0'') (show_nat (month d)) @ ''-''
     @ show_nat (year d) @ ''_''
     @ padStart 2 (CHR ''0'') (show_nat (hours d)) @ ''-''
     @ padStart 2 (CHR ''0'') (show_nat (minutes d)) @ ''-''
     @ padStart 2 (CHR ''0'') (show_nat (seconds d)) @ ''-''
     @ padStart 3 (CHR ''0'') (show_nat (getMilliseconds d)) @ ''.json''"
    by (simp add: timestamp_fileName_def date_part time_part)
  have o1: "fileName_override (Obj [(''url'', Str ''https://example.com'')]) = None"
    by (simp add: fileName_override_def)
  have o2: "fileName_override (Obj [(''fileData'', Obj [(''fileName'', Str '' report.json '')])])
              = Some '' report.json ''"
    by (simp add: fileName_override_def trim_def is_whitespace_def)
  have c1: "choose_fileName (Obj [(''url'', Str ''https://example.com'')]) example_date
       = Inr (Str ''data-03-11-2026_09-05-07-042.json'')"
    by (simp add: choose_fileName_eq target_fileName_def o1 example_timestamp)
  have c2: "choose_fileName (Obj [(''fileData'', Obj [(''fileName'', Str '' report.json '')])])
         example_date
       = Inr (Str '' report.json '')"
    by (simp add: choose_fileName_eq target_fileName_def o2)
  from layout c1 c2 show ?thesis by simp
qed

section \<open>Properties of the request handler\<close>

lemma processRequest_rejected:
  assumes "validate req_body = Inr False"
  shows "processRequest validate join save_folder req_body w =
           (Next (Error ''Data is not in the correct format''),
            w\<lparr>console := console w @
                 [Stderr ''[PROCESS ERROR] Error: Data is not in the correct format'']\<rparr>)"
  using assms by (simp add: processRequest_def)

lemma processRequest_save_fails:
  assumes "validate req_body = Inr True"
    and "fst (saveData join req_body save_folder w) = Inl e"
  shows "fst (processRequest validate join save_folder req_body w) =
           Next (Error ''Failed to save data'')"
proof -
  have "e = Error ''Failed to save data''"
    using assms(2) by (rule saveData_error)
  then show ?thesis
    using assms by (cases "saveData join req_body save_folder w") (simp add: processRequest_def)
qed

lemma processRequest_saved:
  assumes "validate req_body = Inr True"
    and "fst (saveData join req_body save_folder w) = Inr u"
  shows "fst (processRequest validate join save_folder req_body w) =
           Sent (Response 200 (Text ''Success''))"
  using assms by (cases "saveData join req_body save_folder w") (simp add: processRequest_def)

lemma processRequest_validator_throws:
  assumes "validate req_body = Inl e"
  shows "fst (processRequest validate join save_folder req_body w) = Next e"
  using assms by (simp add: processRequest_def)

lemma fst_post_process:
  "fst (post_process validate join save_folder req_body w) =
     (case fst (processRequest validate join save_folder req_body w) of
        Sent r \<Rightarrow> r
      | Next e \<Rightarrow> fst (errorHandler e (snd (processRequest validate join save_folder req_body w))))"
  by (cases "processRequest validate join save_folder req_body w")
     (simp add: post_process_def split: outcome.splits)

lemma fst_errorHandler:
  "fst (errorHandler e w) =
     (if message e = ''Data is not in the correct format''
      then Response 400 (Json (Obj [(''error'', Str ''Invalid input data'')]))
      else if message e = ''Failed to save data''
      then Response 500 (Json (Obj [(''error'', Str ''Failed to save the provided data'')]))
      else Response 500 (Json (Obj [(''error'', Str ''Internal Server Error'')])))"
  by (simp add: errorHandler_def Let_def)

text \<open>
  C4. When the validator rejects the request body, the handler passes the error \<open>Data is
  not in the correct format\<close> to \<open>next\<close> and \<open>saveData\<close> is not called: no call is made to
  the file system, and the directories and the files are as before. The route answers 400
  with \<open>{"error": "Invalid input data"}\<close>.
\<close>

theorem processRequest_rejected_no_save:
  "validate req_body = Inr False \<longrightarrow>
     fst (processRequest validate join save_folder req_body w) =
       Next (Error ''Data is not in the correct format'')
     \<and> calls (snd (processRequest validate join save_folder req_body w)) = calls w
     \<and> dirs (snd (processRequest validate join save_folder req_body w)) = dirs w
     \<and> files (snd (processRequest validate join save_folder req_body w)) = files w
     \<and> fst (post_process validate join save_folder req_body w) =
         Response 400 (Json (Obj [(''error'', Str ''Invalid input data'')]))
     \<and> calls (snd (post_process validate join save_folder req_body w)) = calls w
     \<and> dirs (snd (post_process validate join save_folder req_body w)) = dirs w
     \<and> files (snd (post_process validate join save_folder req_body w)) = files w"
  by (simp add: processRequest_rejected post_process_def errorHandler_def Let_def)

theorem processRequest_rejected_no_save_witness:
  "fst (processRequest validateData example_join ''./data'' (Obj []) example_world) =
       Next (Error ''Data is not in the correct format'')
   \<and> fst (post_process validateData example_join ''./data'' (Obj []) example_world) =
         Response 400 (Json (Obj [(''error'', Str ''Invalid input data'')]))
   \<and> calls (snd (post_process validateData example_join ''./data'' (Obj []) example_world)) = []
   \<and> dirs (snd (post_process validateData example_join ''./data'' (Obj []) example_world)) = []
   \<and> files (snd (post_process validateData example_join ''./data'' (Obj []) example_world)) = []"
  using processRequest_rejected_no_save
          [of validateData "Obj []" example_join "''./data''" example_world]
  by (simp add: validateData_Obj example_world_simps)

text \<open>
  C1. The answer of \<open>POST /process\<close>: 200 with \<open>Success\<close> when the validator accepts the
  body and \<open>saveData\<close> succeeds; 400 with \<open>{"error": "Invalid input data"}\<close> when the
  validator rejects it; 500 with \<open>{"error": "Failed to save the provided data"}\<close> when
  \<open>saveData\<close> fails, which it does with \<open>Failed to save data\<close>; and the error handler
  answers 500 with \<open>{"error": "Internal Server Error"}\<close> to every other error. With either
  validator of the repository the answer is one of the first three.
\<close>

theorem post_process_outcomes:
  "(validate req_body = Inr True \<and> fst (saveData join req_body save_folder w) = Inr () \<longrightarrow>
      fst (post_process validate join save_folder req_body w) = Response 200 (Text ''Success''))
   \<and> (validate req_body = Inr False \<longrightarrow>
      fst (post_process validate join save_folder req_body w) =
        Response 400 (Json (Obj [(''error'', Str ''Invalid input data'')])))
   \<and> (validate req_body = Inr True \<and> fst (saveData join req_body save_folder w) = Inl e \<longrightarrow>
      e = Error ''Failed to save data''
      \<and> fst (post_process validate join save_folder req_body w) =
        Response 500 (Json (Obj [(''error'', Str ''Failed to save the provided data'')])))
   \<and> (message e' \<noteq> ''Data is not in the correct format'' \<and> message e' \<noteq> ''Failed to save data''
        \<longrightarrow> fst (errorHandler e' w) =
              Response 500 (Json (Obj [(''error'', Str ''Internal Server Error'')])))
   \<and> fst (post_process validateData join save_folder req_body w) \<in>
        {Response 200 (Text ''Success''),
         Response 400 (Json (Obj [(''error'', Str ''Invalid input data'')])),
         Response 500 (Json (Obj [(''error'', Str ''Failed to save the provided data'')]))}
   \<and> fst (post_process validateData_a join save_folder req_body w) \<in>
        {Response 200 (Text ''Success''),
         Response 400 (Json (Obj [(''error'', Str ''Invalid input data'')])),
         Response 500 (Json (Obj [(''error'', Str ''Failed to save the provided data'')]))}"
proof -
  have a: "validate req_body = Inr True \<and> fst (saveData join req_body save_folder w) = Inr () \<longrightarrow>
      fst (post_process validate join save_folder req_body w) = Response 200 (Text ''Success'')"
    for validate :: "jsval \<Rightarrow> error + bool"
    by (simp add: fst_post_process processRequest_saved)
  have b: "validate req_body = Inr False \<longrightarrow>
      fst (post_process validate join save_folder req_body w) =
        Response 400 (Json (Obj [(''error'', Str ''Invalid input data'')]))"
    for validate :: "jsval \<Rightarrow> error + bool"
    by (simp add: fst_post_process processRequest_rejected fst_errorHandler)
  have c: "validate req_body = Inr True \<and> fst (saveData join req_body save_folder w) = Inl e \<longrightarrow>
      e = Error ''Failed to save data''
      \<and> fst (post_process validate join save_folder req_body w) =
        Response 500 (Json (Obj [(''error'', Str ''Failed to save the provided data'')]))"
    for validate :: "jsval \<Rightarrow> error + bool" and e
    using saveData_error [of join req_body save_folder w e]
    by (auto simp: fst_post_process processRequest_save_fails fst_errorHandler)
  have d: "message e' \<noteq> ''Data is not in the correct format'' \<and> message e' \<noteq> ''Failed to save data''
        \<longrightarrow> fst (errorHandler e' w) =
              Response 500 (Json (Obj [(''error'', Str ''Internal Server Error'')]))"
    by (simp add: fst_errorHandler)
  have three: "fst (post_process validate join save_folder req_body w) \<in>
        {Response 200 (Text ''Success''),
         Response 400 (Json (Obj [(''error'', Str ''Invalid input data'')])),
         Response 500 (Json (Obj [(''error'', Str ''Failed to save the provided data'')]))}"
    if total: "\<exists>b. validate req_body = Inr b" for validate :: "jsval \<Rightarrow> error + bool"
  proof -
    from total obtain b where vb: "validate req_body = Inr b" by blast
    show ?thesis
    proof (cases b)
      case False
      with vb b [of validate] show ?thesis by simp
    next
      case True
      show ?thesis
      proof (cases "fst (saveData join req_body save_folder w)")
        case (Inl x)
        with vb True c [of validate x] show ?thesis by simp
      next
        case (Inr u)
        with vb True a [of validate] show ?thesis by simp
      qed
    qed
  qed
  have t1: "\<exists>b. validateData req_body = Inr b"
    by (cases "\<exists>kvs. req_body = Obj kvs") (auto simp: validateData_Obj validateData_not_Obj)
  have t2: "\<exists>b. validateData_a req_body = Inr b"
    by (simp add: validateData_a_def)
  from a [of validate] b [of validate] c [of validate e] d
    three [of validateData, OF t1] three [of validateData_a, OF t2]
  show ?thesis by blast
qed

theorem post_process_outcomes_witness:
  "fst (post_process validateData example_join ''./data''
          (Obj [(''url'', Str ''https://example.com'')]) example_world)
     = Response 200 (Text ''Success'')
   \<and> fst (post_process validateData example_join ''./data'' (Obj []) example_world)
     = Response 400 (Json (Obj [(''error'', Str ''Invalid input data'')]))
   \<and> fst (post_process validateData example_join ''./data''
          (Obj [(''url'', Str ''https://example.com'')])
          (example_world\<lparr>mkdir_error := (\<lambda>p. Some (Error ''EACCES: permission denied''))\<rparr>))
     = Response 500 (Json (Obj [(''error'', Str ''Failed to save the provided data'')]))
   \<and> fst (errorHandler (Error ''Save error'') example_world)
     = Response 500 (Json (Obj [(''error'', Str ''Internal Server Error'')]))"
proof -
  have v: "validateData (Obj [(''url'', Str ''https://example.com'')]) = Inr True"
    by (simp add: validateData_Obj is_whitespace_def)
  have v0: "validateData (Obj []) = Inr False"
    by (simp add: validateData_Obj)
  obtain contents where js: "JSON_stringify (Obj [(''url'', Str ''https://example.com'')]) = Some contents"
    using JSON_stringify_defined [of "Obj [(''url'', Str ''https://example.com'')]"] by auto
  have ok: "fst (saveData example_join (Obj [(''url'', Str ''https://example.com'')]) ''./data''
                   example_world) = Inr ()"
    by (subst saveData_succeeds [OF _ _ js]) (simp_all add: example_world_simps)
  have bad: "fst (saveData example_join (Obj [(''url'', Str ''https://example.com'')]) ''./data''
          (example_world\<lparr>mkdir_error := (\<lambda>p. Some (Error ''EACCES: permission denied''))\<rparr>))
      = Inl (Error ''Failed to save data'')"
    by (subst saveData_mkdir_fails [where e = "Error ''EACCES: permission denied''"]) simp_all
  show ?thesis
    using post_process_outcomes
            [of validateData "Obj [(''url'', Str ''https://example.com'')]" example_join "''./data''"
                example_world "Error ''Failed to save data''" "Error ''Save error''"]
          post_process_outcomes
            [of validateData "Obj []" example_join "''./data''"
                example_world "Error ''Failed to save data''" "Error ''Save error''"]
          post_process_outcomes
            [of validateData "Obj [(''url'', Str ''https://example.com'')]" example_join "''./data''"
                "example_world\<lparr>mkdir_error := (\<lambda>p. Some (Error ''EACCES: permission denied''))\<rparr>"
                "Error ''Failed to save data''" "Error ''Save error''"]
          v v0 ok bad
    by simp
qed

section \<open>Where the file is written\<close>

lemma posix_join_examples:
  "posix_join ''/data'' ''../tmp/evil.json'' = ''/tmp/evil.json''"
  "posix_join ''/data'' ''a.json'' = ''/data/a.json''"
  by (simp_all add: posix_join_def posix_normalize_def normalizeString_def normalize_char_def
      normalize_separator_def lastIndexOf_slash_def ends_with_dots_def Let_def)

text \<open>
  C6. \<open>saveData\<close> writes, with one \<open>writeFile\<close>, the payload serialized by
  \<open>JSON.stringify(data, null, 2)\<close> as the whole contents of the file at
  \<open>path.join(folder, fileName)\<close>. The file name of the payload is joined as it is, so a
  name with \<open>..\<close> segments leaves the folder: the request body
  \<open>{"url": "https://example.com", "fileData": {"fileName": "../tmp/evil.json"}}\<close> is
  accepted by the validator and answered with 200 \<open>Success\<close>, the save into \<open>/data\<close>
  succeeds, and the one file written is \<open>/tmp/evil.json\<close>; no file is under \<open>/data/\<close>,
  where the claim has exactly one file in the directory after a successful save and the
  documentation of \<open>saveData\<close> has the file written to the specified folder.
\<close>

theorem saveData_outside_folder:
  "validateData (Obj [(''url'', Str ''https://example.com''),
                      (''fileData'', Obj [(''fileName'', Str ''../tmp/evil.json'')])]) = Inr True
   \<and> fst (post_process validateData posix_join ''/data''
            (Obj [(''url'', Str ''https://example.com''),
                  (''fileData'', Obj [(''fileName'', Str ''../tmp/evil.json'')])])
            example_world)
       = Response 200 (Text ''Success'')
   \<and> saveData posix_join
         (Obj [(''url'', Str ''https://example.com''),
               (''fileData'', Obj [(''fileName'', Str ''../tmp/evil.json'')])])
         ''/data'' example_world
       = (Inr (),
          example_world
            \<lparr>calls := [Mkdir ''/data'',
                       WriteFile ''/tmp/evil.json''
                         (''{'' @ newline
                          @ ''  '' @ [CHR 0x22] @ ''url'' @ [CHR 0x22] @ '': ''
                          @ [CHR 0x22] @ ''https://example.com'' @ [CHR 0x22] @ '','' @ newline
                          @ ''  '' @ [CHR 0x22] @ ''fileData'' @ [CHR 0x22] @ '': {'' @ newline
                          @ ''    '' @ [CHR 0x22] @ ''fileName'' @ [CHR 0x22] @ '': ''
                          @ [CHR 0x22] @ ''../tmp/evil.json'' @ [CHR 0x22] @ newline
                          @ ''  }'' @ newline @ ''}'')],
              dirs := [''/data''],
              files := [(''/tmp/evil.json'',
                         ''{'' @ newline
                          @ ''  '' @ [CHR 0x22] @ ''url'' @ [CHR 0x22] @ '': ''
                          @ [CHR 0x22] @ ''https://example.com'' @ [CHR 0x22] @ '','' @ newline
                          @ ''  '' @ [CHR 0x22] @ ''fileData'' @ [CHR 0x22] @ '': {'' @ newline
                          @ ''    '' @ [CHR 0x22] @ ''fileName'' @ [CHR 0x22] @ '': ''
                          @ [CHR 0x22] @ ''../tmp/evil.json'' @ [CHR 0x22] @ newline
                          @ ''  }'' @ newline @ ''}'')]\<rparr>)
   \<and> filter (\<lambda>(p, c). take 6 p = ''/data/'')
         (files (snd (saveData posix_join
            (Obj [(''url'', Str ''https://example.com''),
                  (''fileData'', Obj [(''fileName'', Str ''../tmp/evil.json'')])])
            ''/data'' example_world)))
       = []"
proof -
  let ?payload = "Obj [(''url'', Str ''https://example.com''),
                       (''fileData'', Obj [(''fileName'', Str ''../tmp/evil.json'')])]"
  let ?contents = "''{'' @ newline
                          @ ''  '' @ [CHR 0x22] @ ''url'' @ [CHR 0x22] @ '': ''
                          @ [CHR 0x22] @ ''https://example.com'' @ [CHR 0x22] @ '','' @ newline
                          @ ''  '' @ [CHR 0x22] @ ''fileData'' @ [CHR 0x22] @ '': {'' @ newline
                          @ ''    '' @ [CHR 0x22] @ ''fileName'' @ [CHR 0x22] @ '': ''
                          @ [CHR 0x22] @ ''../tmp/evil.json'' @ [CHR 0x22] @ newline
                          @ ''  }'' @ newline @ ''}''"
  have v: "validateData ?payload = Inr True"
    by (simp add: validateData_Obj is_whitespace_def)
  have js: "JSON_stringify ?payload = Some ?contents"
    by (simp add: JSON_stringify_def gap_def newline_def QuoteJSONString_def quote_char_def)
  have n: "target_fileName ?payload example_date = ''../tmp/evil.json''"
    by (simp add: target_fileName_def fileName_override_def trim_def is_whitespace_def)
  have s: "saveData posix_join ?payload ''/data'' example_world
       = (Inr (),
          example_world
            \<lparr>calls := [Mkdir ''/data'', WriteFile ''/tmp/evil.json'' ?contents],
              dirs := [''/data''],
              files := [(''/tmp/evil.json'', ?contents)]\<rparr>)"
    by (subst saveData_succeeds [OF _ _ js])
       (simp_all add: example_world_simps n posix_join_examples)
  have r: "fst (post_process validateData posix_join ''/data'' ?payload example_world)
       = Response 200 (Text ''Success'')"
    using processRequest_saved [of validateData ?payload posix_join "''/data''" example_world "()"]
    by (simp add: fst_post_process v s)
  show ?thesis
    using v r s by simp
qed

theorem saveData_outside_folder_witness:
  "files (snd (saveData posix_join
            (Obj [(''url'', Str ''https://example.com''),
                  (''fileData'', Obj [(''fileName'', Str ''../tmp/evil.json'')])])
            ''/data'' example_world))
     = [(''/tmp/evil.json'',
         ''{'' @ newline
          @ ''  '' @ [CHR 0x22] @ ''url'' @ [CHR 0x22] @ '': ''
          @ [CHR 0x22] @ ''https://example.com'' @ [CHR 0x22] @ '','' @ newline
          @ ''  '' @ [CHR 0x22] @ ''fileData'' @ [CHR 0x22] @ '': {'' @ newline
          @ ''    '' @ [CHR 0x22] @ ''fileName'' @ [CHR 0x22] @ '': ''
          @ [CHR 0x22] @ ''../tmp/evil.json'' @ [CHR 0x22] @ newline
          @ ''  }'' @ newline @ ''}'')]
   \<and> calls (snd (saveData posix_join
            (Obj [(''url'', Str ''https://example.com''),
                  (''fileData'', Obj [(''fileName'', Str ''../tmp/evil.json'')])])
            ''/data'' example_world))
     = [Mkdir ''/data'',
        WriteFile ''/tmp/evil.json''
         (''{'' @ newline
          @ ''  '' @ [CHR 0x22] @ ''url'' @ [CHR 0x22] @ '': ''
          @ [CHR 0x22] @ ''https://example.com'' @ [CHR 0x22] @ '','' @ newline
          @ ''  '' @ [CHR 0x22] @ ''fileData'' @ [CHR 0x22] @ '': {'' @ newline
          @ ''    '' @ [CHR 0x22] @ ''fileName'' @ [CHR 0x22] @ '': ''
          @ [CHR 0x22] @ ''../tmp/evil.json'' @ [CHR 0x22] @ newline
          @ ''  }'' @ newline @ ''}'')]"
  using saveData_outside_folder by (simp add: example_world_simps)

end
